theory Spec2Isabelle
  imports Main
begin

section \<open>The token store (core/request/token.ts)\<close>

text \<open>
  The browser's \<^verbatim>\<open>localStorage\<close> is a map from keys to strings: \<^verbatim>\<open>getItem\<close> of a key
  that was never set (or was removed) is \<^verbatim>\<open>null\<close>, here \<open>None\<close>.  A pluggable token
  manager may keep its tokens anywhere, so the store it works on is the browser's
  \<^verbatim>\<open>localStorage\<close> together with a private part \<open>memory\<close> of a type of its own.
\<close>

type_synonym Storage = "string \<rightharpoonup> string"

record 'c store =
  localStorage :: Storage
  memory :: 'c

text \<open>The interface \<^verbatim>\<open>TokenManager\<close> of types.ts: six synchronous methods.\<close>

record 'c TokenManager =
  getToken :: "'c store \<Rightarrow> string option"
  setToken :: "string \<Rightarrow> 'c store \<Rightarrow> 'c store"
  removeToken :: "'c store \<Rightarrow> 'c store"
  getRefreshToken :: "'c store \<Rightarrow> string option"
  setRefreshToken :: "string \<Rightarrow> 'c store \<Rightarrow> 'c store"
  removeRefreshToken :: "'c store \<Rightarrow> 'c store"

definition TOKEN_KEY :: string where
  "TOKEN_KEY = ''auth_token''"

definition REFRESH_TOKEN_KEY :: string where
  "REFRESH_TOKEN_KEY = ''refresh_token''"

definition getItem :: "string \<Rightarrow> 'c store \<Rightarrow> string option" where
  "getItem k s = localStorage s k"

definition setItem :: "string \<Rightarrow> string \<Rightarrow> 'c store \<Rightarrow> 'c store" where
  "setItem k v s = s\<lparr>localStorage := (localStorage s)(k \<mapsto> v)\<rparr>"

definition removeItem :: "string \<Rightarrow> 'c store \<Rightarrow> 'c store" where
  "removeItem k s = s\<lparr>localStorage := (localStorage s)(k := None)\<rparr>"

text \<open>The class \<^verbatim>\<open>LocalStorageTokenManager\<close>: every method is one call on \<^verbatim>\<open>localStorage\<close>.\<close>

definition LocalStorage_getToken :: "'c store \<Rightarrow> string option" where
  "LocalStorage_getToken s = getItem TOKEN_KEY s"

definition LocalStorage_setToken :: "string \<Rightarrow> 'c store \<Rightarrow> 'c store" where
  "LocalStorage_setToken token s = setItem TOKEN_KEY token s"

definition LocalStorage_removeToken :: "'c store \<Rightarrow> 'c store" where
  "LocalStorage_removeToken s = removeItem TOKEN_KEY s"

definition LocalStorage_getRefreshToken :: "'c store \<Rightarrow> string option" where
  "LocalStorage_getRefreshToken s = getItem REFRESH_TOKEN_KEY s"

definition LocalStorage_setRefreshToken :: "string \<Rightarrow> 'c store \<Rightarrow> 'c store" where
  "LocalStorage_setRefreshToken token s = setItem REFRESH_TOKEN_KEY token s"

definition LocalStorage_removeRefreshToken :: "'c store \<Rightarrow> 'c store" where
  "LocalStorage_removeRefreshToken s = removeItem REFRESH_TOKEN_KEY s"

definition LocalStorageTokenManager :: "'c TokenManager" where
  "LocalStorageTokenManager =
     \<lparr> getToken = LocalStorage_getToken,
       setToken = LocalStorage_setToken,
       removeToken = LocalStorage_removeToken,
       getRefreshToken = LocalStorage_getRefreshToken,
       setRefreshToken = LocalStorage_setRefreshToken,
       removeRefreshToken = LocalStorage_removeRefreshToken \<rparr>"

section \<open>Requests, responses and errors (the types of the request module)\<close>

text \<open>
  A path variable is a \<^verbatim>\<open>string | number\<close>.  \<^verbatim>\<open>String(value)\<close> is the value itself for a
  string; for a number it is JavaScript's number formatting, which is taken as a
  parameter \<open>num\<close>.
\<close>

datatype 'n path_value = PStr string | PNum 'n

fun String_js :: "('n \<Rightarrow> string) \<Rightarrow> 'n path_value \<Rightarrow> string" where
  "String_js num (PStr s) = s"
| "String_js num (PNum n) = num n"

text \<open>
  \<^verbatim>\<open>RequestConfig\<close>, with the fields the module reads or writes.  \<open>pathVariables\<close> is the
  object as \<^verbatim>\<open>Object.entries\<close> enumerates it (a list of key/value pairs, \<open>None\<close> when the
  field is not given); \<open>Authorization\<close> is \<^verbatim>\<open>config.headers.Authorization\<close>; \<open>retry\<close> is the
  field \<^verbatim>\<open>_retry\<close>.  The flags are read for their truthiness only, so an absent flag is
  \<open>False\<close>.
\<close>

record 'n RequestConfig =
  url :: string
  ignoreAuth :: bool
  silentError :: bool
  throwError :: bool
  pathVariables :: "(string \<times> 'n path_value) list option"
  Authorization :: "string option"
  retry :: bool

text \<open>The tagged union \<^verbatim>\<open>Response<T>\<close>: data, errorCode, errorMessage of each variant.\<close>

datatype 'd Response =
    Success 'd "string option" "string option"
  | Failure "'d option" int string

text \<open>
  What the transport hands over: \<^verbatim>\<open>AxiosResponse\<close> with its status and body.  The body
  of a failed call is read only through \<^verbatim>\<open>data?.errorMessage\<close>.
\<close>

record 'b AxiosResponse =
  status :: int
  data :: 'b

record ErrorData =
  errorMessage :: "string option"

type_synonym ErrorResponse = "ErrorData option AxiosResponse"

text \<open>
  The values the module throws or rejects with: the transport's \<^verbatim>\<open>AxiosError\<close> (message,
  optional response, the config of the call), the \<^verbatim>\<open>ApiError\<close> of the success handler
  (message and response) and a plain \<^verbatim>\<open>Error\<close> with its message.
\<close>

datatype 'n thrown =
    AxiosError string "ErrorResponse option" "'n RequestConfig"
  | ApiError string "ErrorResponse option"
  | Error string

text \<open>The transport settles a call: it resolves with a response or rejects with the
  message and optional response of an \<^verbatim>\<open>AxiosError\<close>.\<close>

datatype 'd settled =
    Resolved "'d Response AxiosResponse"
  | Rejected string "ErrorResponse option"

text \<open>The data of a successful refresh.\<close>

record tokens =
  access :: string
  refresh :: string

text \<open>
  The calls the module makes on its collaborators, in the order they are made: the
  transport is handed a config, the refresh endpoint a refresh token, the error handler's
  \<^verbatim>\<open>showError\<close> a message.
\<close>

datatype 'n event =
    is_Transport: Transport "'n RequestConfig"
  | is_Refresh: Refresh string
  | is_ShowError: ShowError string

definition transport_calls :: "'n event list \<Rightarrow> nat" where
  "transport_calls events = length (filter is_Transport events)"

definition refresh_calls :: "'n event list \<Rightarrow> nat" where
  "refresh_calls events = length (filter is_Refresh events)"

text \<open>
  The state a call runs in: the token store, the world behind the transport and the
  refresh endpoint (of any type \<open>'w\<close>), and the calls made so far.
\<close>

record ('c, 'w, 'n) state =
  store :: "'c store"
  world :: 'w
  trace :: "'n event list"

text \<open>
  The collaborators that are not part of the module are parameters: the transport behind
  the axios instance, which settles the config it is handed; the function
  \<^verbatim>\<open>refreshToken\<close>, imported from the interface layer, which is handed the refresh token
  and rejects with a thrown value or resolves with a \<^verbatim>\<open>Response\<close> whose data are the two
  new tokens; and the formatting of numbers.  A call of the transport or of the refresh
  endpoint may change the world; neither touches the token store or the error handler.
  One call is followed from its start to its end: calls do not interleave.
\<close>

record ('w, 'n, 'd) env =
  adapter :: "'n RequestConfig \<Rightarrow> 'w \<Rightarrow> 'd settled \<times> 'w"
  refreshToken :: "string \<Rightarrow> 'w \<Rightarrow> ('n thrown + tokens Response) \<times> 'w"
  Number_toString :: "'n \<Rightarrow> string"

type_synonym ('c, 'w, 'n, 'd) outcome = "('n thrown + 'd Response) \<times> ('c, 'w, 'n) state"

section \<open>String.prototype.replace with a string pattern\<close>

text \<open>
  A string is the list of its characters.  The pattern occurs in \<open>s\<close> at index \<open>i\<close>:
\<close>

definition occurs_at :: "string \<Rightarrow> string \<Rightarrow> nat \<Rightarrow> bool" where
  "occurs_at pat s i = (take (length pat) (drop i s) = pat)"

text \<open>
  \<^verbatim>\<open>StringIndexOf\<close>: the least index at which the pattern occurs, if any; the indices
  tried run from 0 to the length of the text less the length of the pattern.
\<close>

definition StringIndexOf :: "string \<Rightarrow> string \<Rightarrow> nat option" where
  "StringIndexOf s pat =
     (if length s < length pat then None
      else List.find (occurs_at pat s) [0 ..< Suc (length s - length pat)])"

text \<open>
  \<^verbatim>\<open>GetSubstitution\<close> for a string pattern (no capture groups): in the replacement text,
  \<^verbatim>\<open>$$\<close> stands for a dollar sign, \<^verbatim>\<open>$&\<close> for the matched text, a dollar sign followed by
  a backquote for the text before the match and by a quote for the text after it; every
  other character stands for itself.
\<close>

fun GetSubstitution :: "string \<Rightarrow> string \<Rightarrow> string \<Rightarrow> string \<Rightarrow> string" where
  "GetSubstitution matched pre post [] = []"
| "GetSubstitution matched pre post [c] = [c]"
| "GetSubstitution matched pre post (c # d # rest) =
     (if c = CHR ''$'' \<and> d = CHR ''$'' then CHR ''$'' # GetSubstitution matched pre post rest
      else if c = CHR ''$'' \<and> d = CHR 0x60 then pre @ GetSubstitution matched pre post rest
      else if c = CHR ''$'' \<and> d = CHR ''&'' then matched @ GetSubstitution matched pre post rest
      else if c = CHR ''$'' \<and> d = CHR 0x27 then post @ GetSubstitution matched pre post rest
      else c # GetSubstitution matched pre post (d # rest))"

text \<open>\<^verbatim>\<open>s.replace(pat, rep)\<close>: only the first occurrence of the pattern is replaced.\<close>

definition replace :: "string \<Rightarrow> string \<Rightarrow> string \<Rightarrow> string" where
  "replace s pat rep =
     (case StringIndexOf s pat of
        None \<Rightarrow> s
      | Some pos \<Rightarrow>
          (let preceding = take pos s;
               following = drop (pos + length pat) s
           in preceding @ GetSubstitution pat preceding following rep @ following))"

section \<open>The request interceptor\<close>

text \<open>
  Lines 88 to 107.  A token is attached when \<^verbatim>\<open>ignoreAuth\<close> is falsy and the token read
  from the store is truthy (neither \<^verbatim>\<open>null\<close> nor the empty string).  When
  \<^verbatim>\<open>pathVariables\<close> is given, each entry replaces \<^verbatim>\<open>{key}\<close> in the URL, in the order of
  the entries.  The URL is a string by its type, so \<^verbatim>\<open>requestConfig.url || ''\<close> is the URL.
\<close>

definition truthy :: "string option \<Rightarrow> bool" where
  "truthy v = (case v of None \<Rightarrow> False | Some t \<Rightarrow> t \<noteq> [])"

definition placeholder :: "string \<Rightarrow> string" where
  "placeholder key = ''{'' @ key @ ''}''"

definition substitute :: "('n \<Rightarrow> string) \<Rightarrow> string \<Rightarrow> (string \<times> 'n path_value) list \<Rightarrow> string" where
  "substitute num u entries =
     foldl (\<lambda>url (key, v). replace url (placeholder key) (String_js num v)) u entries"

definition request_interceptor ::
  "'c TokenManager \<Rightarrow> ('n \<Rightarrow> string) \<Rightarrow> 'c store \<Rightarrow> 'n RequestConfig \<Rightarrow> 'n RequestConfig" where
  "request_interceptor tm num s config =
     (let config1 =
            (if \<not> ignoreAuth config then
               (case getToken tm s of
                  None \<Rightarrow> config
                | Some token \<Rightarrow>
                    if token \<noteq> [] then config\<lparr>Authorization := Some (''Bearer '' @ token)\<rparr>
                    else config)
             else config)
      in case pathVariables config1 of
           None \<Rightarrow> config1
         | Some entries \<Rightarrow> config1\<lparr>url := substitute num (url config1) entries\<rparr>)"

section \<open>The response interceptor\<close>

text \<open>
  The success handler, lines 113 to 127: a body tagged as a failure is thrown as an
  \<^verbatim>\<open>ApiError\<close> with status 400; a body tagged as a success is returned.
\<close>

definition response_onFulfilled :: "'d Response AxiosResponse \<Rightarrow> 'n thrown + 'd Response" where
  "response_onFulfilled response =
     (case data response of
        Failure d code msg \<Rightarrow>
          Inl (ApiError msg (Some \<lparr>status = 400, data = Some \<lparr>errorMessage = Some msg\<rparr>\<rparr>))
      | Success d code msg \<Rightarrow> Inr (data response))"

text \<open>\<^verbatim>\<open>error.response?.data?.errorMessage\<close>: undefined when any link is missing.\<close>

definition body_errorMessage :: "ErrorResponse option \<Rightarrow> string option" where
  "body_errorMessage response =
     (case response of
        None \<Rightarrow> None
      | Some r \<Rightarrow> (case data r of None \<Rightarrow> None | Some d \<Rightarrow> errorMessage d))"

text \<open>
  \<^verbatim>\<open>error.response?.data?.errorMessage || error.message\<close>: the body's message unless it
  is missing or empty.
\<close>

definition best_message :: "string \<Rightarrow> ErrorResponse option \<Rightarrow> string" where
  "best_message message response =
     (case body_errorMessage response of
        None \<Rightarrow> message
      | Some m \<Rightarrow> if m \<noteq> [] then m else message)"

text \<open>\<^verbatim>\<open>error.response?.status || 500\<close>: the status unless it is missing or zero.\<close>

definition status_or_500 :: "ErrorResponse option \<Rightarrow> int" where
  "status_or_500 response =
     (case response of
        None \<Rightarrow> 500
      | Some r \<Rightarrow> if status r \<noteq> 0 then status r else 500)"

text \<open>
  Lines 153 to 166, the handling by the call's flags: report unless \<^verbatim>\<open>silentError\<close>, then
  throw the error when \<^verbatim>\<open>throwError\<close>, else return a failure value.
\<close>

definition handle_by_configuration ::
  "string \<Rightarrow> ErrorResponse option \<Rightarrow> 'n RequestConfig \<Rightarrow> ('c, 'w, 'n) state
   \<Rightarrow> ('c, 'w, 'n, 'd) outcome" where
  "handle_by_configuration message response originalRequest st =
     (let st1 =
            (if \<not> silentError originalRequest
             then st\<lparr>trace := trace st @ [ShowError (best_message message response)]\<rparr>
             else st)
      in if throwError originalRequest
         then (Inl (AxiosError message response originalRequest), st1)
         else (Inr (Failure None (status_or_500 response) (best_message message response)), st1))"

text \<open>The catch block, lines 146 to 150: both tokens are removed and the error rethrown.\<close>

definition catch_refreshError ::
  "'c TokenManager \<Rightarrow> 'n thrown \<Rightarrow> ('c, 'w, 'n) state \<Rightarrow> ('c, 'w, 'n, 'd) outcome" where
  "catch_refreshError tm refreshError st =
     (Inl refreshError, st\<lparr>store := removeRefreshToken tm (removeToken tm (store st))\<rparr>)"

text \<open>
  The store holds a refresh token that is not empty and the refresh endpoint, called with
  it, resolves with new tokens.
\<close>

definition refresh_resolves ::
  "('w, 'n, 'd) env \<Rightarrow> 'c TokenManager \<Rightarrow> ('c, 'w, 'n) state \<Rightarrow> bool" where
  "refresh_resolves E tm st =
     (case getRefreshToken tm (store st) of
        None \<Rightarrow> False
      | Some refreshTokenValue \<Rightarrow>
          refreshTokenValue \<noteq> [] \<and>
          (case fst (refreshToken E refreshTokenValue (world st)) of
             Inl refreshError \<Rightarrow> False
           | Inr (Success d code msg) \<Rightarrow> True
           | Inr (Failure d code msg) \<Rightarrow> False))"

text \<open>
  The error handler, lines 128 to 167.  Its first argument is what the module variable
  \<^verbatim>\<open>requestInstance\<close> does when it is called on a config; \<open>message\<close>, \<open>response\<close> and
  \<open>config\<close> are the three fields of the \<^verbatim>\<open>AxiosError\<close>.  The promise returned from inside
  the \<^verbatim>\<open>try\<close> block is not awaited there, so a rejection of the re-issued call does not
  reach the catch block.  A refresh that resolves with a failure value leaves the
  \<^verbatim>\<open>try\<close> block and is handled by the flags, on the config marked as retried.
\<close>

definition response_onRejected ::
  "('n RequestConfig \<Rightarrow> ('c, 'w, 'n) state \<Rightarrow> ('c, 'w, 'n, 'd) outcome)
   \<Rightarrow> ('w, 'n, 'd) env \<Rightarrow> 'c TokenManager
   \<Rightarrow> string \<Rightarrow> ErrorResponse option \<Rightarrow> 'n RequestConfig
   \<Rightarrow> ('c, 'w, 'n) state \<Rightarrow> ('c, 'w, 'n, 'd) outcome" where
  "response_onRejected instance E tm message response config st =
     (if map_option status response = Some 401 \<and> \<not> retry config then
        (let originalRequest = config\<lparr>retry := True\<rparr>
         in case getRefreshToken tm (store st) of
              None \<Rightarrow> catch_refreshError tm (Error ''No refresh token available'') st
            | Some refreshTokenValue \<Rightarrow>
                if refreshTokenValue = [] then
                  catch_refreshError tm (Error ''No refresh token available'') st
                else
                  (case refreshToken E refreshTokenValue (world st) of
                     (result, w) \<Rightarrow>
                       (let st1 = st\<lparr>world := w, trace := trace st @ [Refresh refreshTokenValue]\<rparr>
                        in case result of
                             Inl refreshError \<Rightarrow> catch_refreshError tm refreshError st1
                           | Inr (Success d code msg) \<Rightarrow>
                               instance originalRequest
                                 (st1\<lparr>store :=
                                    setRefreshToken tm (refresh d) (setToken tm (access d) (store st1))\<rparr>)
                           | Inr (Failure d code msg) \<Rightarrow>
                               handle_by_configuration message response originalRequest st1)))
      else handle_by_configuration message response config st)"

lemma retry_request_interceptor [simp]:
  "retry (request_interceptor tm num s config) = retry config"
  by (simp add: request_interceptor_def Let_def split: option.split)

lemma response_onRejected_cong [fundef_cong]:
  assumes "E = E'" "tm = tm'" "message = message'" "response = response'"
    and "config = config'" "st = st'"
    and "\<And>c s. \<not> retry config' \<Longrightarrow> retry c \<Longrightarrow> f c s = g c s"
  shows "response_onRejected f E tm message response config st
       = response_onRejected g E' tm' message' response' config' st'"
  using assms
  by (auto simp: response_onRejected_def Let_def split: option.split sum.split Response.split prod.split)

section \<open>The axios instance and the module\<close>

text \<open>
  A call of the instance: the request interceptor, the transport, then the success
  handler or the error handler.  The instance keeps the fields of the config it is called
  with, \<^verbatim>\<open>_retry\<close> among them, and the error carries the config the transport was given.
  The only call the error handler makes on the instance is on a config marked as retried,
  and for such a config the handler makes none: this is the termination argument.
\<close>

function requestInstance ::
  "('w, 'n, 'd) env \<Rightarrow> 'c TokenManager \<Rightarrow> 'n RequestConfig \<Rightarrow> ('c, 'w, 'n) state
   \<Rightarrow> ('c, 'w, 'n, 'd) outcome" where
  "requestInstance E tm config st =
     (let config' = request_interceptor tm (Number_toString E) (store st) config
      in case adapter E config' (world st) of
           (settled, w) \<Rightarrow>
             (let st1 = st\<lparr>world := w, trace := trace st @ [Transport config']\<rparr>
              in case settled of
                   Resolved response \<Rightarrow> (response_onFulfilled response, st1)
                 | Rejected message response \<Rightarrow>
                     response_onRejected (requestInstance E tm) E tm message response config' st1))"
  by pat_completeness auto
termination
  by (relation "measure (\<lambda>(E, tm, config, st). if retry config then 0 else 1)") auto

declare requestInstance.simps [simp del]

text \<open>
  The module variables \<^verbatim>\<open>requestInstance\<close>, \<^verbatim>\<open>tokenManager\<close> and \<^verbatim>\<open>errorHandler\<close> are
  assigned together, by \<^verbatim>\<open>createRequest\<close> only: the module is \<open>None\<close> before the first
  call and holds the instance after it.  The error handler is the receiver of the
  \<open>ShowError\<close> events.
\<close>

record 'c RequestOptions =
  options_tokenManager :: "'c TokenManager option"
  options_baseURL :: string
  options_timeout :: "nat option"

record 'c created =
  baseURL :: string
  timeout :: nat
  tokenManager :: "'c TokenManager"

definition createRequest :: "'c RequestOptions \<Rightarrow> 'c created option" where
  "createRequest options =
     Some \<lparr> baseURL = options_baseURL options,
            timeout = (case options_timeout options of
                         None \<Rightarrow> 10000
                       | Some t \<Rightarrow> if t \<noteq> 0 then t else 10000),
            tokenManager = (case options_tokenManager options of
                              None \<Rightarrow> LocalStorageTokenManager
                            | Some t \<Rightarrow> t) \<rparr>"

definition request ::
  "'c created option \<Rightarrow> ('w, 'n, 'd) env \<Rightarrow> 'n RequestConfig \<Rightarrow> ('c, 'w, 'n) state
   \<Rightarrow> ('c, 'w, 'n, 'd) outcome" where
  "request module E args st =
     (case module of
        None \<Rightarrow> (Inl (Error ''Request instance not initialized. Call createRequest first.''), st)
      | Some created \<Rightarrow> requestInstance E (tokenManager created) args st)"

section \<open>The specification's reading of the substitution\<close>

text \<open>
  The specification has every occurrence of \<^verbatim>\<open>{key}\<close> replaced by the stringified value.
  \<open>replace_every\<close> and \<open>substitute_every\<close> follow those words; they are compared with
  \<open>replace\<close> and \<open>substitute\<close> above.
\<close>

fun replace_every :: "string \<Rightarrow> string \<Rightarrow> string \<Rightarrow> string" where
  "replace_every [] pat rep = []"
| "replace_every (c # cs) pat rep =
     (if pat \<noteq> [] \<and> take (length pat) (c # cs) = pat
      then rep @ replace_every (drop (length pat - 1) cs) pat rep
      else c # replace_every cs pat rep)"

definition substitute_every ::
  "('n \<Rightarrow> string) \<Rightarrow> string \<Rightarrow> (string \<times> 'n path_value) list \<Rightarrow> string" where
  "substitute_every num u entries =
     foldl (\<lambda>url (key, v). replace_every url (placeholder key) (String_js num v)) u entries"

section \<open>Example values\<close>

definition empty_store :: "unit store" where
  "empty_store = \<lparr>localStorage = Map.empty, memory = ()\<rparr>"

text \<open>Number formatting on the natural numbers: the decimal numeral.\<close>

fun decimal :: "nat \<Rightarrow> string" where
  "decimal n =
     (if n < 10 then [''0123456789'' ! n]
      else decimal (n div 10) @ [''0123456789'' ! (n mod 10)])"

declare decimal.simps [simp del]

definition example_config ::
  "string \<Rightarrow> (string \<times> nat path_value) list option \<Rightarrow> nat RequestConfig" where
  "example_config u pv =
     \<lparr>url = u, ignoreAuth = False, silentError = False, throwError = False,
      pathVariables = pv, Authorization = None, retry = False\<rparr>"

text \<open>
  A server that serves \<^verbatim>\<open>/orders\<close> to the bearer of the access token A2 only, reports a
  business failure on \<^verbatim>\<open>/pay\<close> and knows no other path; a refresh endpoint that accepts
  the refresh token R1, resolves with a failure value for the refresh token R9 and rejects
  for every other one.  The world counts the calls served.
\<close>

definition example_adapter :: "nat RequestConfig \<Rightarrow> nat \<Rightarrow> string settled \<times> nat" where
  "example_adapter config served =
     (if url config = ''/orders'' then
        (if Authorization config = Some ''Bearer A2''
         then (Resolved \<lparr>status = 200, data = Success ''[]'' None None\<rparr>, Suc served)
         else (Rejected ''Request failed with status code 401''
                 (Some \<lparr>status = 401, data = None\<rparr>), Suc served))
      else if url config = ''/pay'' then
        (Resolved \<lparr>status = 200, data = Failure None 1001 ''Insufficient funds''\<rparr>, Suc served)
      else
        (Rejected ''Request failed with status code 404''
           (Some \<lparr>status = 404, data = Some \<lparr>errorMessage = Some ''Not found''\<rparr>\<rparr>), Suc served))"

definition example_refreshToken :: "string \<Rightarrow> nat \<Rightarrow> (nat thrown + tokens Response) \<times> nat" where
  "example_refreshToken refreshTokenValue served =
     (if refreshTokenValue = ''R1''
      then (Inr (Success \<lparr>access = ''A2'', refresh = ''R2''\<rparr> None None), Suc served)
      else if refreshTokenValue = ''R9''
      then (Inr (Failure None 401 ''Refresh token expired''), Suc served)
      else (Inl (Error ''Invalid refresh token''), Suc served))"

definition example_env :: "(nat, nat, string) env" where
  "example_env =
     \<lparr>adapter = example_adapter, refreshToken = example_refreshToken, Number_toString = decimal\<rparr>"

definition example_state :: "string option \<Rightarrow> string option \<Rightarrow> (unit, nat, nat) state" where
  "example_state accessToken refreshTokenValue =
     \<lparr>store = \<lparr>localStorage = Map.empty(TOKEN_KEY := accessToken, REFRESH_TOKEN_KEY := refreshTokenValue), memory = ()\<rparr>,
      world = 0, trace = []\<rparr>"

text \<open>Two failed responses: a 401 without a body, and a 404 with a body.\<close>

definition unauthorized :: "ErrorResponse option" where
  "unauthorized = Some \<lparr>status = 401, data = None\<rparr>"

definition not_found :: "string option \<Rightarrow> ErrorResponse option" where
  "not_found bodyMessage = Some \<lparr>status = 404, data = Some \<lparr>errorMessage = bodyMessage\<rparr>\<rparr>"

section \<open>Properties of the token store\<close>

lemmas LocalStorage_defs =
  LocalStorageTokenManager_def LocalStorage_getToken_def LocalStorage_setToken_def
  LocalStorage_removeToken_def LocalStorage_getRefreshToken_def
  LocalStorage_setRefreshToken_def LocalStorage_removeRefreshToken_def
  getItem_def setItem_def removeItem_def TOKEN_KEY_def REFRESH_TOKEN_KEY_def

lemmas example_defs =
  example_env_def example_adapter_def example_refreshToken_def example_state_def
  example_config_def

lemmas replace_defs =
  substitute_def placeholder_def replace_def StringIndexOf_def occurs_at_def Let_def


lemma keys_distinct: "TOKEN_KEY \<noteq> REFRESH_TOKEN_KEY"
  by (simp add: TOKEN_KEY_def REFRESH_TOKEN_KEY_def)

lemma getItem_setItem: "getItem k (setItem k' v s) = (if k = k' then Some v else getItem k s)"
  by (simp add: getItem_def setItem_def)

lemma getItem_removeItem: "getItem k (removeItem k' s) = (if k = k' then None else getItem k s)"
  by (simp add: getItem_def removeItem_def)

text \<open>
  Claim C10.  In the default manager the two slots are independent: writing or removing
  the access token leaves the refresh token as it was, writing or removing the refresh
  token leaves the access token as it was, and a token that was just written is the one
  read back.
\<close>

theorem LocalStorageTokenManager_slots_independent:
  fixes s :: "'c store"
  defines "tm \<equiv> (LocalStorageTokenManager :: 'c TokenManager)"
  shows "getRefreshToken tm (setToken tm t s) = getRefreshToken tm s
       \<and> getRefreshToken tm (removeToken tm s) = getRefreshToken tm s
       \<and> getToken tm (setRefreshToken tm t s) = getToken tm s
       \<and> getToken tm (removeRefreshToken tm s) = getToken tm s
       \<and> getToken tm (setToken tm t s) = Some t
       \<and> getRefreshToken tm (setRefreshToken tm t s) = Some t"
  using keys_distinct
  by (auto simp: tm_def LocalStorageTokenManager_def LocalStorage_getToken_def
      LocalStorage_setToken_def LocalStorage_removeToken_def LocalStorage_getRefreshToken_def
      LocalStorage_setRefreshToken_def LocalStorage_removeRefreshToken_def
      getItem_setItem getItem_removeItem)


section \<open>Properties of String.prototype.replace\<close>

lemma occurrence_decomposition:
  assumes "take (length pat) (drop i s) = pat"
  shows "s = take i s @ pat @ drop (i + length pat) s"
proof -
  have "drop i s = take (length pat) (drop i s) @ drop (length pat) (drop i s)"
    by (simp only: append_take_drop_id)
  then have "drop i s = pat @ drop (i + length pat) s"
    using assms by (simp add: add.commute)
  then show ?thesis
    by (metis append_take_drop_id)
qed

lemma GetSubstitution_plain:
  "CHR ''$'' \<notin> set rep \<Longrightarrow> GetSubstitution matched pre post rep = rep"
  by (induction matched pre post rep rule: GetSubstitution.induct) auto

lemma find_upt_None: "List.find P [0 ..< n] = None \<longleftrightarrow> (\<forall>i<n. \<not> P i)"
  by (simp add: find_None_iff del: upt_Suc)

lemma find_upt_Some: "List.find P [0 ..< n] = Some i \<longleftrightarrow> i < n \<and> P i \<and> (\<forall>j<i. \<not> P j)"
proof
  assume "List.find P [0 ..< n] = Some i"
  then obtain k where k: "k < length [0 ..< n]" "P ([0 ..< n] ! k)" "i = [0 ..< n] ! k"
      "\<forall>j<k. \<not> P ([0 ..< n] ! j)"
    unfolding find_Some_iff by blast
  from k(1) have kn: "k < n" by simp
  with k(3) have ik: "i = k" by simp
  have "\<not> P j" if "j < k" for j
  proof -
    from that kn have "[0 ..< n] ! j = j" by simp
    with k(4) that show ?thesis by metis
  qed
  with k(2) kn ik show "i < n \<and> P i \<and> (\<forall>j<i. \<not> P j)" by simp
next
  assume a: "i < n \<and> P i \<and> (\<forall>j<i. \<not> P j)"
  show "List.find P [0 ..< n] = Some i"
    unfolding find_Some_iff
  proof (intro exI [of _ i] conjI allI impI)
    show "i < length [0 ..< n]" using a by simp
    show "P ([0 ..< n] ! i)" using a by simp
    show "i = [0 ..< n] ! i" using a by simp
    fix j assume "j < i"
    with a have "[0 ..< n] ! j = j" "\<not> P j" by simp_all
    then show "\<not> P ([0 ..< n] ! j)" by simp
  qed
qed

lemma occurs_at_append: "occurs_at pat (b @ pat @ a) (length b)"
  by (simp add: occurs_at_def)

lemma occurs_at_decomposition:
  "occurs_at pat s i \<Longrightarrow> s = take i s @ pat @ drop (i + length pat) s"
  unfolding occurs_at_def by (rule occurrence_decomposition)

lemma StringIndexOf_None_iff:
  "StringIndexOf s pat = None \<longleftrightarrow> \<not> (\<exists>b a. s = b @ pat @ a)"
proof
  assume none: "StringIndexOf s pat = None"
  show "\<not> (\<exists>b a. s = b @ pat @ a)"
  proof
    assume "\<exists>b a. s = b @ pat @ a"
    then obtain b a where s: "s = b @ pat @ a" by blast
    then have occ: "occurs_at pat s (length b)" by (simp add: occurs_at_append)
    have "\<not> length s < length pat" using s by simp
    with none have "\<forall>i<Suc (length s - length pat). \<not> occurs_at pat s i"
      by (simp only: StringIndexOf_def find_upt_None if_False)
    moreover have "length b < Suc (length s - length pat)" using s by simp
    ultimately show False using occ by blast
  qed
next
  assume absent: "\<not> (\<exists>b a. s = b @ pat @ a)"
  have "\<not> occurs_at pat s i" for i
    using absent occurs_at_decomposition by blast
  then show "StringIndexOf s pat = None"
    by (simp add: StringIndexOf_def find_upt_None del: upt_Suc)
qed

lemma StringIndexOf_first_iff:
  "StringIndexOf (b @ pat @ a) pat = Some (length b)
   \<longleftrightarrow> (\<forall>b' a'. b @ pat @ a = b' @ pat @ a' \<longrightarrow> length b \<le> length b')"
proof -
  let ?s = "b @ pat @ a"
  have len: "\<not> length ?s < length pat" by simp
  have find: "StringIndexOf ?s pat = Some (length b)
      \<longleftrightarrow> (\<forall>j<length b. \<not> occurs_at pat ?s j)"
  proof -
    have "length b < Suc (length ?s - length pat)" by simp
    with occurs_at_append [of pat b a] show ?thesis
      by (simp only: StringIndexOf_def len if_False find_upt_Some simp_thms)
  qed
  show ?thesis
  proof
    assume "StringIndexOf ?s pat = Some (length b)"
    with find have none: "\<forall>j<length b. \<not> occurs_at pat ?s j" by simp
    show "\<forall>b' a'. ?s = b' @ pat @ a' \<longrightarrow> length b \<le> length b'"
    proof (intro allI impI)
      fix b' a' assume eq: "?s = b' @ pat @ a'"
      have "occurs_at pat (b' @ pat @ a') (length b')" by (rule occurs_at_append)
      with eq have "occurs_at pat ?s (length b')" by simp
      with none show "length b \<le> length b'" by (meson not_le)
    qed
  next
    assume first: "\<forall>b' a'. ?s = b' @ pat @ a' \<longrightarrow> length b \<le> length b'"
    have "\<not> occurs_at pat ?s j" if "j < length b" for j
    proof
      assume "occurs_at pat ?s j"
      then have "?s = take j ?s @ pat @ drop (j + length pat) ?s"
        by (rule occurs_at_decomposition)
      with first have "length b \<le> length (take j ?s)" by blast
      with that show False by simp
    qed
    with find show "StringIndexOf ?s pat = Some (length b)" by simp
  qed
qed

lemma replace_absent:
  "\<not> (\<exists>b a. s = b @ pat @ a) \<Longrightarrow> replace s pat rep = s"
  using StringIndexOf_None_iff [of s pat] by (simp add: replace_def)

lemma replace_first:
  assumes "\<forall>b' a'. b @ pat @ a = b' @ pat @ a' \<longrightarrow> length b \<le> length b'"
  shows "replace (b @ pat @ a) pat rep = b @ GetSubstitution pat b a rep @ a"
proof -
  have "StringIndexOf (b @ pat @ a) pat = Some (length b)"
    using assms by (simp only: StringIndexOf_first_iff)
  then show ?thesis by (simp add: replace_def Let_def)
qed

section \<open>Properties of the request interceptor\<close>

text \<open>
  What line 101 does.  With \<^verbatim>\<open>pathVariables\<close> given, the URL sent is the URL of the config
  after each entry, in order, has called \<^verbatim>\<open>replace\<close> once.  One such call leaves a URL in
  which \<^verbatim>\<open>{key}\<close> does not occur as it is; in a URL in which it occurs, it puts the value
  in the place of the first occurrence when the value has no dollar sign in it, and leaves
  the text before and after that occurrence as it is.
\<close>

lemma request_interceptor_url:
  "(pathVariables config = Some entries \<longrightarrow>
      url (request_interceptor tm num s config)
        = foldl (\<lambda>u (key, v). replace u (placeholder key) (String_js num v)) (url config) entries)
 \<and> (\<not> (\<exists>b a. u = b @ placeholder key @ a) \<longrightarrow> replace u (placeholder key) rep = u)
 \<and> ((\<forall>b' a'. b @ placeholder key @ a = b' @ placeholder key @ a' \<longrightarrow> length b \<le> length b')
      \<and> CHR ''$'' \<notin> set rep \<longrightarrow>
      replace (b @ placeholder key @ a) (placeholder key) rep = b @ rep @ a)"
proof (intro conjI impI)
  assume "pathVariables config = Some entries"
  then show "url (request_interceptor tm num s config)
        = foldl (\<lambda>u (key, v). replace u (placeholder key) (String_js num v)) (url config) entries"
    by (simp add: request_interceptor_def substitute_def Let_def split: option.split)
next
  assume "\<not> (\<exists>b a. u = b @ placeholder key @ a)"
  then show "replace u (placeholder key) rep = u"
    by (rule replace_absent)
next
  assume "(\<forall>b' a'. b @ placeholder key @ a = b' @ placeholder key @ a' \<longrightarrow> length b \<le> length b')
      \<and> CHR ''$'' \<notin> set rep"
  then show "replace (b @ placeholder key @ a) (placeholder key) rep = b @ rep @ a"
    by (simp add: replace_first GetSubstitution_plain)
qed

text \<open>
  Claim C6.  Every occurrence of \<^verbatim>\<open>{key}\<close> in the URL is to be replaced by the stringified
  value of the key.  The code does not do so: line 101 calls \<^verbatim>\<open>replace\<close> with a string as
  its pattern, which replaces the first occurrence only and reads the value as a
  replacement template.  A URL that holds the placeholder twice is sent with the second
  one still in it, although the types of lines 20 to 27 take one value for each
  placeholder name, and the value \<^verbatim>\<open>$&\<close> puts the placeholder back where the
  specification's reading puts the value.
\<close>

theorem request_interceptor_leaves_repeated_placeholder:
  "url (request_interceptor LocalStorageTokenManager decimal empty_store
          (example_config ''/{id}/{id}'' (Some [(''id'', PStr ''7'')]))) = ''/7/{id}''
 \<and> substitute_every decimal ''/{id}/{id}'' [(''id'', PStr ''7'')] = ''/7/7''
 \<and> url (request_interceptor LocalStorageTokenManager decimal empty_store
          (example_config ''/files/{name}'' (Some [(''name'', PStr ''$&'')]))) = ''/files/{name}''
 \<and> substitute_every decimal ''/files/{name}'' [(''name'', PStr ''$&'')] = ''/files/$&''"
  by (simp add: request_interceptor_def example_config_def empty_store_def LocalStorage_defs
      replace_defs substitute_every_def)

lemma request_interceptor_url_example:
  "url (request_interceptor LocalStorageTokenManager decimal
          (setToken LocalStorageTokenManager ''abc'' empty_store)
          (example_config ''/users/{id}'' (Some [(''id'', PNum 1)]))) = ''/users/1''
 \<and> substitute_every decimal ''/users/{id}'' [(''id'', PNum 1)] = ''/users/1''
 \<and> \<not> (\<exists>b a. ''/users/{name}'' = b @ placeholder ''id'' @ a)
 \<and> replace ''/users/{name}'' (placeholder ''id'') ''1'' = ''/users/{name}''
 \<and> CHR ''$'' \<notin> set ''7''
 \<and> replace (''/'' @ placeholder ''id'' @ ''/{id}'') (placeholder ''id'') ''7'' = ''/'' @ ''7'' @ ''/{id}''"
proof -
  let ?c = "example_config ''/users/{id}'' (Some [(''id'', PNum 1)])"
  let ?s = "setToken LocalStorageTokenManager ''abc'' empty_store"
  have pv: "pathVariables ?c = Some [(''id'', PNum 1)]"
    by (simp add: example_config_def)
  have absent: "\<not> (\<exists>b a. ''/users/{name}'' = b @ placeholder ''id'' @ a)"
    unfolding StringIndexOf_None_iff [symmetric] by (simp add: replace_defs)
  have first: "\<forall>b' a'. ''/'' @ placeholder ''id'' @ ''/{id}'' = b' @ placeholder ''id'' @ a'
      \<longrightarrow> length ''/'' \<le> length b'"
    unfolding StringIndexOf_first_iff [symmetric] by (simp add: replace_defs)
  have plain: "CHR ''$'' \<notin> set ''7''" by simp
  have "url (request_interceptor LocalStorageTokenManager decimal ?s ?c) = ''/users/1''"
    using request_interceptor_url [of ?c "[(''id'', PNum 1)]" LocalStorageTokenManager decimal ?s] pv
    by (simp add: example_config_def replace_defs decimal.simps)
  moreover have "replace ''/users/{name}'' (placeholder ''id'') ''1'' = ''/users/{name}''"
    using request_interceptor_url [of _ _ _ _ _ "''/users/{name}''" "''id''" "''1''"] absent
    by blast
  moreover have "replace (''/'' @ placeholder ''id'' @ ''/{id}'') (placeholder ''id'') ''7''
      = ''/'' @ ''7'' @ ''/{id}''"
    using request_interceptor_url [of _ _ _ _ _ _ "''id''" "''7''" "''/''" "''/{id}''"] first plain
    by blast
  moreover have "substitute_every decimal ''/users/{id}'' [(''id'', PNum 1)] = ''/users/1''"
    by (simp add: substitute_every_def placeholder_def decimal.simps)
  ultimately show ?thesis using absent plain by blast
qed

text \<open>
  Claim C7, amended.  When \<^verbatim>\<open>ignoreAuth\<close> is unset and the store holds an access token
  that is not the empty string, the header sent is \<^verbatim>\<open>Bearer\<close>, a space and the token.  When
  \<^verbatim>\<open>ignoreAuth\<close> is set, or the store holds no access token or the empty string, the
  header is the one the config came with.
\<close>

theorem request_interceptor_Authorization:
  "(\<not> ignoreAuth config \<and> getToken tm s = Some token \<and> token \<noteq> [] \<longrightarrow>
       Authorization (request_interceptor tm num s config) = Some (''Bearer '' @ token))
 \<and> (ignoreAuth config \<or> getToken tm s = None \<or> getToken tm s = Some [] \<longrightarrow>
       Authorization (request_interceptor tm num s config) = Authorization config)"
  by (auto simp: request_interceptor_def Let_def split: option.split)


text \<open>
  The claim as the specification states it fails on a store that holds the empty string
  as its access token: no header is set.
\<close>

theorem request_interceptor_Authorization_counterexample:
  "\<not> ignoreAuth (example_config ''/users'' None)
 \<and> getToken LocalStorageTokenManager (setToken LocalStorageTokenManager '''' empty_store) = Some ''''
 \<and> Authorization (request_interceptor LocalStorageTokenManager decimal
        (setToken LocalStorageTokenManager '''' empty_store) (example_config ''/users'' None)) = None"
  by (simp add: request_interceptor_def example_config_def empty_store_def LocalStorage_defs)

theorem request_interceptor_Authorization_witness:
  "\<not> ignoreAuth (example_config ''/users'' None)
 \<and> getToken LocalStorageTokenManager (setToken LocalStorageTokenManager ''abc'' empty_store) = Some ''abc''
 \<and> Authorization (request_interceptor LocalStorageTokenManager decimal
        (setToken LocalStorageTokenManager ''abc'' empty_store) (example_config ''/users'' None))
     = Some ''Bearer abc''
 \<and> getToken LocalStorageTokenManager empty_store = None
 \<and> Authorization (request_interceptor LocalStorageTokenManager decimal empty_store
        ((example_config ''/users'' None)\<lparr>Authorization := Some ''Basic xyz''\<rparr>))
     = Some ''Basic xyz''"
proof -
  let ?c = "example_config ''/users'' None"
  let ?s = "setToken LocalStorageTokenManager ''abc'' empty_store"
  have h1: "\<not> ignoreAuth ?c \<and> getToken LocalStorageTokenManager ?s = Some ''abc'' \<and> ''abc'' \<noteq> []"
    by (simp add: example_config_def empty_store_def LocalStorage_defs)
  have h2: "getToken LocalStorageTokenManager empty_store = None"
    by (simp add: empty_store_def LocalStorage_defs)
  have "Authorization (request_interceptor LocalStorageTokenManager decimal ?s ?c) = Some (''Bearer '' @ ''abc'')"
    using request_interceptor_Authorization [of ?c LocalStorageTokenManager ?s "''abc''" decimal] h1
    by blast
  moreover have "Authorization (request_interceptor LocalStorageTokenManager decimal empty_store
        (?c\<lparr>Authorization := Some ''Basic xyz''\<rparr>)) = Authorization (?c\<lparr>Authorization := Some ''Basic xyz''\<rparr>)"
    using request_interceptor_Authorization
      [of "?c\<lparr>Authorization := Some ''Basic xyz''\<rparr>" LocalStorageTokenManager empty_store _ decimal] h2
    by blast
  ultimately show ?thesis using h1 h2 by (simp add: example_config_def)
qed


section \<open>Properties of the response interceptor\<close>

lemma response_onRejected_retried:
  "map_option status response \<noteq> Some 401 \<or> retry config \<Longrightarrow>
   response_onRejected inst E tm message response config st
     = handle_by_configuration message response config st"
  by (auto simp: response_onRejected_def)

lemma handle_by_configuration_state:
  "snd (handle_by_configuration message response config st :: ('c, 'w, 'n, 'd) outcome)
     = (if silentError config then st
        else st\<lparr>trace := trace st @ [ShowError (best_message message response)]\<rparr>)"
  by (simp add: handle_by_configuration_def Let_def)

lemma calls_simps [simp]:
  "transport_calls [] = 0" "refresh_calls [] = 0"
  "transport_calls (e # es) = (if is_Transport e then 1 else 0) + transport_calls es"
  "refresh_calls (e # es) = (if is_Refresh e then 1 else 0) + refresh_calls es"
  "transport_calls (es @ es') = transport_calls es + transport_calls es'"
  "refresh_calls (es @ es') = refresh_calls es + refresh_calls es'"
  by (simp_all add: transport_calls_def refresh_calls_def)

text \<open>A call of the instance on a config already marked as retried.\<close>

lemma requestInstance_retried:
  assumes "retry config"
  shows "requestInstance E tm config st =
     (let config' = request_interceptor tm (Number_toString E) (store st) config
      in case adapter E config' (world st) of
           (settled, w) \<Rightarrow>
             (let st1 = st\<lparr>world := w, trace := trace st @ [Transport config']\<rparr>
              in case settled of
                   Resolved response \<Rightarrow> (response_onFulfilled response, st1)
                 | Rejected message response \<Rightarrow>
                     handle_by_configuration message response config' st1))"
  using assms
  by (simp add: requestInstance.simps [of E tm config st] response_onRejected_retried Let_def
      split: prod.split settled.split)

lemma requestInstance_retried_trace:
  assumes "retry config"
  shows "\<exists>shown. trace (snd (requestInstance E tm config st))
           = trace st @ Transport (request_interceptor tm (Number_toString E) (store st) config) # shown
         \<and> transport_calls shown = 0 \<and> refresh_calls shown = 0"
  using assms
  by (auto simp: requestInstance_retried handle_by_configuration_state Let_def
      split: prod.split settled.split)

lemma requestInstance_retried_store:
  assumes "retry config"
  shows "store (snd (requestInstance E tm config st)) = store st"
  using assms
  by (auto simp: requestInstance_retried handle_by_configuration_state Let_def
      split: prod.split settled.split)


lemma response_onRejected_no_token:
  assumes "map_option status response = Some 401" "\<not> retry config"
    and "\<not> truthy (getRefreshToken tm (store st))"
  shows "response_onRejected inst E tm message response config st
       = catch_refreshError tm (Error ''No refresh token available'') st"
  using assms by (simp add: response_onRejected_def truthy_def Let_def split: option.splits)

lemma response_onRejected_refresh_rejected:
  assumes "map_option status response = Some 401" "\<not> retry config"
    and "getRefreshToken tm (store st) = Some rt" "rt \<noteq> []"
    and "refreshToken E rt (world st) = (Inl refreshError, w)"
  shows "response_onRejected inst E tm message response config st
       = catch_refreshError tm refreshError (st\<lparr>world := w, trace := trace st @ [Refresh rt]\<rparr>)"
  using assms by (simp add: response_onRejected_def Let_def)

lemma response_onRejected_refresh_success:
  assumes "map_option status response = Some 401" "\<not> retry config"
    and "getRefreshToken tm (store st) = Some rt" "rt \<noteq> []"
    and "refreshToken E rt (world st) = (Inr (Success d code msg), w)"
  shows "response_onRejected inst E tm message response config st
       = inst (config\<lparr>retry := True\<rparr>)
           (st\<lparr>world := w, trace := trace st @ [Refresh rt],
               store := setRefreshToken tm (refresh d) (setToken tm (access d) (store st))\<rparr>)"
  using assms by (simp add: response_onRejected_def Let_def)

lemma response_onRejected_refresh_failure:
  assumes "map_option status response = Some 401" "\<not> retry config"
    and "getRefreshToken tm (store st) = Some rt" "rt \<noteq> []"
    and "refreshToken E rt (world st) = (Inr (Failure d code msg), w)"
  shows "response_onRejected inst E tm message response config st
       = handle_by_configuration message response (config\<lparr>retry := True\<rparr>)
           (st\<lparr>world := w, trace := trace st @ [Refresh rt]\<rparr>)"
  using assms by (simp add: response_onRejected_def Let_def)

text \<open>
  Claim C1, amended.  A failure with status 401 on a call that is not marked as retried
  runs the refresh-and-retry flow once, and the flow may stop before the refresh or before
  the retry: among the calls it adds to the trace there is exactly one call of the refresh
  endpoint when the store holds a refresh token that is not empty, and none otherwise;
  there is exactly one call of the transport when that refresh resolved with new tokens,
  and none otherwise; every config handed to the transport is marked as retried; and
  without a refresh token nothing is added at all.  A failure with status 401 on a call
  that is marked as retried is handled by the flags alone: neither the refresh endpoint
  nor the transport is called.
\<close>

theorem response_onRejected_401_single_attempt:
  assumes unauthorized: "map_option status response = Some 401"
  shows
  "(\<not> retry config \<longrightarrow>
      (\<exists>added.
          trace (snd (response_onRejected (requestInstance E tm) E tm message response config st))
            = trace st @ added
        \<and> refresh_calls added = (if truthy (getRefreshToken tm (store st)) then 1 else 0)
        \<and> transport_calls added = (if refresh_resolves E tm st then 1 else 0)
        \<and> (\<forall>c. Transport c \<in> set added \<longrightarrow> retry c)
        \<and> (\<not> truthy (getRefreshToken tm (store st)) \<longrightarrow> added = [])))
 \<and> (retry config \<longrightarrow>
      response_onRejected (requestInstance E tm) E tm message response config st
        = handle_by_configuration message response config st
      \<and> (\<exists>shown.
            trace (snd (response_onRejected (requestInstance E tm) E tm message response config st))
              = trace st @ shown
          \<and> refresh_calls shown = 0 \<and> transport_calls shown = 0))"
proof (intro conjI impI)
  assume fresh: "\<not> retry config"
  let ?out = "response_onRejected (requestInstance E tm) E tm message response config st"
  let ?P = "\<lambda>added. trace (snd ?out) = trace st @ added
        \<and> refresh_calls added = (if truthy (getRefreshToken tm (store st)) then 1 else 0)
        \<and> transport_calls added = (if refresh_resolves E tm st then 1 else 0)
        \<and> (\<forall>c. Transport c \<in> set added \<longrightarrow> retry c)
        \<and> (\<not> truthy (getRefreshToken tm (store st)) \<longrightarrow> added = [])"
  show "\<exists>added. ?P added"
  proof (cases "truthy (getRefreshToken tm (store st))")
    case False
    then have "?out = catch_refreshError tm (Error ''No refresh token available'') st"
      using unauthorized fresh by (rule response_onRejected_no_token [rotated 2])
    moreover from False have "\<not> refresh_resolves E tm st"
      by (auto simp: refresh_resolves_def truthy_def split: option.splits)
    ultimately have "?P []"
      using False by (simp add: catch_refreshError_def)
    then show ?thesis ..
  next
    case True
    then obtain rt where rt: "getRefreshToken tm (store st) = Some rt" "rt \<noteq> []"
      by (auto simp: truthy_def split: option.splits)
    obtain result w where call: "refreshToken E rt (world st) = (result, w)"
      by (cases "refreshToken E rt (world st)")
    show ?thesis
    proof (cases result)
      case (Inl refreshError)
      with call have "?out = catch_refreshError tm refreshError
          (st\<lparr>world := w, trace := trace st @ [Refresh rt]\<rparr>)"
        using unauthorized fresh rt by (simp add: response_onRejected_refresh_rejected)
      moreover from rt call Inl have "\<not> refresh_resolves E tm st"
        by (simp add: refresh_resolves_def)
      ultimately have "?P [Refresh rt]"
        using True by (simp add: catch_refreshError_def)
      then show ?thesis ..
    next
      case (Inr resolved)
      show ?thesis
      proof (cases resolved)
        case (Success d code msg)
        let ?st2 = "st\<lparr>world := w, trace := trace st @ [Refresh rt],
               store := setRefreshToken tm (refresh d) (setToken tm (access d) (store st))\<rparr>"
        let ?again = "config\<lparr>retry := True\<rparr>"
        from call Inr Success
        have out: "?out = requestInstance E tm ?again ?st2"
          using unauthorized fresh rt by (simp add: response_onRejected_refresh_success)
        from rt call Inr Success have resolves: "refresh_resolves E tm st"
          by (simp add: refresh_resolves_def)
        obtain shown where shown:
          "trace (snd (requestInstance E tm ?again ?st2))
             = trace ?st2 @ Transport (request_interceptor tm (Number_toString E) (store ?st2) ?again) # shown"
          "transport_calls shown = 0" "refresh_calls shown = 0"
          using requestInstance_retried_trace [of ?again E tm ?st2] by auto
        have no_transport: "Transport c \<notin> set shown" for c
          using shown(2) by (auto simp: transport_calls_def filter_empty_conv)
        have "?P (Refresh rt # Transport (request_interceptor tm (Number_toString E) (store ?st2) ?again) # shown)"
          using out shown True resolves no_transport by auto
        then show ?thesis ..
      next
        case (Failure d code msg)
        let ?st1 = "st\<lparr>world := w, trace := trace st @ [Refresh rt]\<rparr>"
        from call Inr Failure
        have out: "?out = handle_by_configuration message response (config\<lparr>retry := True\<rparr>) ?st1"
          using unauthorized fresh rt by (simp add: response_onRejected_refresh_failure)
        from rt call Inr Failure have "\<not> refresh_resolves E tm st"
          by (simp add: refresh_resolves_def)
        then have "?P (Refresh rt # (if silentError config then [] else [ShowError (best_message message response)]))"
          using out True by (simp add: handle_by_configuration_state)
        then show ?thesis ..
      qed
    qed
  qed
next
  assume again: "retry config"
  then show handled: "response_onRejected (requestInstance E tm) E tm message response config st
        = handle_by_configuration message response config st"
    by (simp add: response_onRejected_retried)
  show "\<exists>shown.
            trace (snd (response_onRejected (requestInstance E tm) E tm message response config st))
              = trace st @ shown
          \<and> refresh_calls shown = 0 \<and> transport_calls shown = 0"
    unfolding handled
    by (intro exI [of _ "if silentError config then [] else [ShowError (best_message message response)]"])
      (simp add: handle_by_configuration_state)
qed

text \<open>
  The claim as the specification states it, exactly one refresh and one retry for every
  such failure, fails without a refresh token in the store, where the handler calls neither
  the refresh endpoint nor the transport, and with a refresh that rejects, where the call
  is not issued again.
\<close>

theorem response_onRejected_401_single_attempt_counterexample:
  "map_option status unauthorized = Some 401
 \<and> \<not> retry (example_config ''/orders'' None)
 \<and> trace (snd (response_onRejected (requestInstance example_env LocalStorageTokenManager)
          example_env LocalStorageTokenManager ''Request failed with status code 401''
          unauthorized (example_config ''/orders'' None)
          (example_state (Some ''A1'') None)))
     = []
 \<and> trace (snd (response_onRejected (requestInstance example_env LocalStorageTokenManager)
          example_env LocalStorageTokenManager ''Request failed with status code 401''
          unauthorized (example_config ''/orders'' None)
          (example_state (Some ''A1'') (Some ''R0''))))
     = [Refresh ''R0'']"
  by (simp add: response_onRejected_def catch_refreshError_def unauthorized_def example_defs
      LocalStorage_defs Let_def)

lemma transport_calls_positive:
  assumes "transport_calls events = 1"
  shows "\<exists>c. Transport c \<in> set events"
proof -
  have "\<exists>e\<in>set events. is_Transport e"
  proof (rule ccontr)
    assume "\<not> (\<exists>e\<in>set events. is_Transport e)"
    then have "filter is_Transport events = []"
      by (simp add: filter_empty_conv)
    with assms show False
      by (simp add: transport_calls_def)
  qed
  then obtain e where e: "e \<in> set events" "is_Transport e"
    by blast
  from e(2) obtain c where "e = Transport c"
    by (cases e) auto
  with e(1) show ?thesis by blast
qed

theorem response_onRejected_401_single_attempt_witness:
  "map_option status unauthorized = Some 401
 \<and> \<not> retry (example_config ''/orders'' None)
 \<and> (\<exists>added.
        trace (snd (response_onRejected (requestInstance example_env LocalStorageTokenManager)
                 example_env LocalStorageTokenManager ''Request failed with status code 401''
                 unauthorized (example_config ''/orders'' None)
                 (example_state (Some ''A1'') (Some ''R1''))))
          = trace (example_state (Some ''A1'') (Some ''R1'')) @ added
      \<and> refresh_calls added = 1 \<and> transport_calls added = 1
      \<and> (\<exists>c. Transport c \<in> set added \<and> retry c))
 \<and> \<not> truthy (getRefreshToken LocalStorageTokenManager (store (example_state (Some ''A1'') None)))
 \<and> trace (snd (response_onRejected (requestInstance example_env LocalStorageTokenManager)
          example_env LocalStorageTokenManager ''Request failed with status code 401''
          unauthorized (example_config ''/orders'' None)
          (example_state (Some ''A1'') None)))
     = trace (example_state (Some ''A1'') None)
 \<and> retry ((example_config ''/orders'' None)\<lparr>retry := True\<rparr>)
 \<and> (\<exists>shown.
        trace (snd (response_onRejected (requestInstance example_env LocalStorageTokenManager)
                 example_env LocalStorageTokenManager ''Request failed with status code 401''
                 unauthorized ((example_config ''/orders'' None)\<lparr>retry := True\<rparr>)
                 (example_state (Some ''A1'') (Some ''R1''))))
          = trace (example_state (Some ''A1'') (Some ''R1'')) @ shown
      \<and> refresh_calls shown = 0 \<and> transport_calls shown = 0)"
proof -
  let ?c = "example_config ''/orders'' None"
  let ?st = "example_state (Some ''A1'') (Some ''R1'')"
  let ?bare = "example_state (Some ''A1'') None"
  let ?m = "''Request failed with status code 401''"
  let ?inst = "requestInstance example_env LocalStorageTokenManager"
  let ?handler = "response_onRejected ?inst example_env LocalStorageTokenManager ?m unauthorized"
  have h: "map_option status unauthorized = Some 401"
    by (simp add: unauthorized_def)
  have fresh: "\<not> retry ?c" by (simp add: example_defs)
  have token: "truthy (getRefreshToken LocalStorageTokenManager (store ?st))"
    by (simp add: truthy_def example_defs LocalStorage_defs)
  have resolves: "refresh_resolves example_env LocalStorageTokenManager ?st"
    by (simp add: refresh_resolves_def example_defs LocalStorage_defs)
  have no_token: "\<not> truthy (getRefreshToken LocalStorageTokenManager (store ?bare))"
    by (simp add: truthy_def example_defs LocalStorage_defs)
  note first = response_onRejected_401_single_attempt
        [OF h, of ?c example_env LocalStorageTokenManager ?m ?st]
  note none = response_onRejected_401_single_attempt
        [OF h, of ?c example_env LocalStorageTokenManager ?m ?bare]
  note second = response_onRejected_401_single_attempt
        [OF h, of "?c\<lparr>retry := True\<rparr>" example_env LocalStorageTokenManager ?m ?st]
  from first fresh obtain added where added:
    "trace (snd (?handler ?c ?st)) = trace ?st @ added"
    "refresh_calls added
       = (if truthy (getRefreshToken LocalStorageTokenManager (store ?st)) then 1 else 0)"
    "transport_calls added
       = (if refresh_resolves example_env LocalStorageTokenManager ?st then 1 else 0)"
    "\<forall>c. Transport c \<in> set added \<longrightarrow> retry c"
    by blast
  from added(2) token have refreshed: "refresh_calls added = 1" by simp
  from added(3) resolves have sent: "transport_calls added = 1" by simp
  from sent obtain c where "Transport c \<in> set added"
    using transport_calls_positive by blast
  with added(4) have "\<exists>c. Transport c \<in> set added \<and> retry c" by blast
  with added(1) refreshed sent have one: "\<exists>added.
      trace (snd (?handler ?c ?st)) = trace ?st @ added
      \<and> refresh_calls added = 1 \<and> transport_calls added = 1
      \<and> (\<exists>c. Transport c \<in> set added \<and> retry c)"
    by blast
  from none fresh no_token have untouched: "trace (snd (?handler ?c ?bare)) = trace ?bare"
    by auto
  have again: "retry (?c\<lparr>retry := True\<rparr>)" by simp
  with second have retried: "\<exists>shown.
      trace (snd (?handler (?c\<lparr>retry := True\<rparr>) ?st)) = trace ?st @ shown
      \<and> refresh_calls shown = 0 \<and> transport_calls shown = 0"
    by blast
  from h fresh one no_token untouched again retried show ?thesis by blast
qed

text \<open>
  The catch block: when the refresh call made for a 401 failure rejects, the handler
  removes the access token and the refresh token from the store and rejects with the error
  of the refresh call.  No flag of the config is looked at, and the only call added to the
  trace is the refresh call.
\<close>

lemma refresh_rejected_clears_tokens_and_rethrows:
  assumes "map_option status response = Some 401" "\<not> retry config"
    and "getRefreshToken tm (store st) = Some rt" "rt \<noteq> []"
    and "refreshToken E rt (world st) = (Inl refreshError, w)"
  shows "response_onRejected inst E tm message response config st
       = (Inl refreshError,
          st\<lparr>world := w, trace := trace st @ [Refresh rt],
             store := removeRefreshToken tm (removeToken tm (store st))\<rparr>)"
  using assms by (simp add: response_onRejected_refresh_rejected catch_refreshError_def)

text \<open>
  Claim C2.  Every refresh that fails is to remove both tokens from the store and to reach
  the caller as a thrown refresh failure, whatever the flags, with the error handler left
  alone.  The code does so for a refresh that rejects, in its catch block, and not for a
  refresh that fails by resolving with a failure value: line 141 tests the tag, no branch
  handles the failure, and the handler goes on to the handling by the flags.  With the
  refresh token R9 in the store both tokens are still there afterwards, \<^verbatim>\<open>showError\<close> is
  called with the message of the 401 failure, and the caller receives a failure value for
  the 401; with \<^verbatim>\<open>throwError\<close> set the error thrown is the 401 failure, not the failure
  of the refresh.
\<close>

theorem refresh_failure_value_keeps_tokens:
  "refreshToken example_env ''R9'' 0 = (Inr (Failure None 401 ''Refresh token expired''), 1)
 \<and> response_onRejected (requestInstance example_env LocalStorageTokenManager)
      example_env LocalStorageTokenManager ''Request failed with status code 401''
      unauthorized (example_config ''/orders'' None)
      (example_state (Some ''A1'') (Some ''R9''))
     = (Inr (Failure None 401 ''Request failed with status code 401''),
        (example_state (Some ''A1'') (Some ''R9''))
          \<lparr>world := 1,
           trace := [Refresh ''R9'', ShowError ''Request failed with status code 401'']\<rparr>)
 \<and> getToken LocalStorageTokenManager (store (example_state (Some ''A1'') (Some ''R9'')))
     = Some ''A1''
 \<and> getRefreshToken LocalStorageTokenManager (store (example_state (Some ''A1'') (Some ''R9'')))
     = Some ''R9''
 \<and> response_onRejected (requestInstance example_env LocalStorageTokenManager)
      example_env LocalStorageTokenManager ''Request failed with status code 401''
      unauthorized ((example_config ''/orders'' None)\<lparr>silentError := True, throwError := True\<rparr>)
      (example_state (Some ''A1'') (Some ''R9''))
     = (Inl (AxiosError ''Request failed with status code 401'' unauthorized
               ((example_config ''/orders'' None)
                  \<lparr>silentError := True, throwError := True, retry := True\<rparr>)),
        (example_state (Some ''A1'') (Some ''R9''))\<lparr>world := 1, trace := [Refresh ''R9'']\<rparr>)"
  by (simp add: response_onRejected_def handle_by_configuration_def best_message_def
      body_errorMessage_def status_or_500_def unauthorized_def example_defs LocalStorage_defs
      Let_def)

text \<open>
  Claim C3.  When the refresh call made for a 401 failure resolves with new tokens, the
  handler writes the access token, then the refresh token, and its outcome is the outcome
  of the instance called on the config marked as retried, in the state that holds the new
  tokens.  That call hands one config to the transport, built by the request interceptor
  from the updated store, and calls neither the transport nor the refresh endpoint again;
  it leaves the store as written.
\<close>

theorem refresh_success_stores_tokens_and_reissues:
  assumes "map_option status response = Some 401" "\<not> retry config"
    and "getRefreshToken tm (store st) = Some rt" "rt \<noteq> []"
    and "refreshToken E rt (world st) = (Inr (Success d code msg), w)"
  shows "response_onRejected (requestInstance E tm) E tm message response config st
       = requestInstance E tm (config\<lparr>retry := True\<rparr>)
           (st\<lparr>world := w, trace := trace st @ [Refresh rt],
               store := setRefreshToken tm (refresh d) (setToken tm (access d) (store st))\<rparr>)
     \<and> store (snd (response_onRejected (requestInstance E tm) E tm message response config st))
       = setRefreshToken tm (refresh d) (setToken tm (access d) (store st))
     \<and> (\<exists>shown.
          trace (snd (response_onRejected (requestInstance E tm) E tm message response config st))
            = trace st @
              [Refresh rt,
               Transport (request_interceptor tm (Number_toString E)
                 (setRefreshToken tm (refresh d) (setToken tm (access d) (store st)))
                 (config\<lparr>retry := True\<rparr>))] @ shown
        \<and> transport_calls shown = 0 \<and> refresh_calls shown = 0)"
proof -
  let ?st2 = "st\<lparr>world := w, trace := trace st @ [Refresh rt],
               store := setRefreshToken tm (refresh d) (setToken tm (access d) (store st))\<rparr>"
  let ?again = "config\<lparr>retry := True\<rparr>"
  have out: "response_onRejected (requestInstance E tm) E tm message response config st
       = requestInstance E tm ?again ?st2"
    using assms by (rule response_onRejected_refresh_success)
  have again: "retry ?again" by simp
  show ?thesis
    using requestInstance_retried_trace [OF again, of E tm ?st2]
      requestInstance_retried_store [OF again, of E tm ?st2]
    unfolding out by simp
qed

theorem refresh_success_stores_tokens_and_reissues_witness:
  "response_onRejected (requestInstance example_env LocalStorageTokenManager)
          example_env LocalStorageTokenManager ''Request failed with status code 401''
          unauthorized
          ((example_config ''/orders'' None)\<lparr>Authorization := Some ''Bearer A1''\<rparr>)
          (example_state (Some ''A1'') (Some ''R1''))
     = (Inr (Success ''[]'' None None),
        \<lparr>store = \<lparr>localStorage =
                    Map.empty(TOKEN_KEY \<mapsto> ''A2'', REFRESH_TOKEN_KEY \<mapsto> ''R2''),
                  memory = ()\<rparr>,
         world = 2,
         trace = [Refresh ''R1'',
                  Transport ((example_config ''/orders'' None)
                    \<lparr>Authorization := Some ''Bearer A2'', retry := True\<rparr>)]\<rparr>)"
proof -
  let ?c = "(example_config ''/orders'' None)\<lparr>Authorization := Some ''Bearer A1''\<rparr>"
  let ?st = "example_state (Some ''A1'') (Some ''R1'')"
  have h: "map_option status unauthorized = Some 401"
    by (simp add: unauthorized_def)
  have fresh: "\<not> retry ?c" by (simp add: example_defs)
  have token: "getRefreshToken LocalStorageTokenManager (store ?st) = Some ''R1''"
    by (simp add: example_defs LocalStorage_defs)
  have truthy: "''R1'' \<noteq> []" by simp
  have call: "refreshToken example_env ''R1'' (world ?st)
      = (Inr (Success \<lparr>access = ''A2'', refresh = ''R2''\<rparr> None None), Suc 0)"
    by (simp add: example_defs)
  note reissued = refresh_success_stores_tokens_and_reissues
    [OF h fresh token truthy call, of "''Request failed with status code 401''", THEN conjunct1]
  show ?thesis
    unfolding reissued
    by (simp add: requestInstance_retried request_interceptor_def response_onFulfilled_def
        example_defs LocalStorage_defs Let_def fun_upd_twist)
qed

text \<open>
  Claim C4.  A 401 failure on a call not marked as retried, with no refresh token in the
  store, rejects with the error \<^verbatim>\<open>No refresh token available\<close> after both tokens have
  been removed from the store; the refresh endpoint is not called.
\<close>

theorem no_refresh_token_clears_tokens_and_rethrows:
  assumes "map_option status response = Some 401" "\<not> retry config"
    and "getRefreshToken tm (store st) = None"
  shows "response_onRejected inst E tm message response config st
       = (Inl (Error ''No refresh token available''),
          st\<lparr>store := removeRefreshToken tm (removeToken tm (store st))\<rparr>)"
  using assms by (simp add: response_onRejected_no_token truthy_def catch_refreshError_def)

theorem no_refresh_token_clears_tokens_and_rethrows_witness:
  "response_onRejected (requestInstance example_env LocalStorageTokenManager)
          example_env LocalStorageTokenManager ''Request failed with status code 401''
          unauthorized (example_config ''/orders'' None)
          (example_state (Some ''A1'') None)
     = (Inl (Error ''No refresh token available''),
        \<lparr>store = \<lparr>localStorage = Map.empty, memory = ()\<rparr>, world = 0, trace = []\<rparr>)"
proof -
  let ?c = "example_config ''/orders'' None"
  let ?st = "example_state (Some ''A1'') None"
  have h: "map_option status unauthorized = Some 401"
    by (simp add: unauthorized_def)
  have fresh: "\<not> retry ?c" by (simp add: example_defs)
  have token: "getRefreshToken LocalStorageTokenManager (store ?st) = None"
    by (simp add: example_defs LocalStorage_defs)
  show ?thesis
    unfolding no_refresh_token_clears_tokens_and_rethrows [OF h fresh token]
    by (simp add: example_defs LocalStorage_defs)
qed

text \<open>
  Claim C5.  A response whose body is tagged as a failure is thrown by the success handler
  as an \<^verbatim>\<open>ApiError\<close> with status 400 and the body's message, whatever the status of the
  response; a call of the instance whose transport resolves with such a response rejects
  with that error, whatever the flags of the call, and the error handler is not called.
\<close>

theorem failure_body_is_thrown:
  "(data response = Failure d code msg \<longrightarrow>
      response_onFulfilled response
        = Inl (ApiError msg (Some \<lparr>status = 400, data = Some \<lparr>errorMessage = Some msg\<rparr>\<rparr>)))
 \<and> (adapter E (request_interceptor tm (Number_toString E) (store st) config) (world st)
        = (Resolved response, w)
      \<and> data response = Failure d code msg \<longrightarrow>
      requestInstance E tm config st
        = (Inl (ApiError msg (Some \<lparr>status = 400, data = Some \<lparr>errorMessage = Some msg\<rparr>\<rparr>)),
           st\<lparr>world := w,
              trace := trace st @
                [Transport (request_interceptor tm (Number_toString E) (store st) config)]\<rparr>))"
  by (simp add: response_onFulfilled_def requestInstance.simps [of E tm config st] Let_def)

theorem failure_body_is_thrown_witness:
  "response_onFulfilled \<lparr>status = 200, data = Failure None 1001 ''Insufficient funds''\<rparr>
     = (Inl (ApiError ''Insufficient funds''
          (Some \<lparr>status = 400, data = Some \<lparr>errorMessage = Some ''Insufficient funds''\<rparr>\<rparr>))
        :: nat thrown + string Response)
 \<and> requestInstance example_env LocalStorageTokenManager
       ((example_config ''/pay'' None)\<lparr>silentError := True\<rparr>)
       (example_state None None)
     = (Inl (ApiError ''Insufficient funds''
          (Some \<lparr>status = 400, data = Some \<lparr>errorMessage = Some ''Insufficient funds''\<rparr>\<rparr>)),
        (example_state None None)
          \<lparr>world := 1,
           trace := [Transport ((example_config ''/pay'' None)\<lparr>silentError := True\<rparr>)]\<rparr>)"
proof -
  let ?c = "(example_config ''/pay'' None)\<lparr>silentError := True\<rparr>"
  let ?st = "example_state None None"
  let ?r = "\<lparr>status = 200, data = Failure None 1001 ''Insufficient funds''\<rparr>
    :: string Response AxiosResponse"
  have sent: "request_interceptor LocalStorageTokenManager (Number_toString example_env) (store ?st) ?c = ?c"
    by (simp add: request_interceptor_def example_defs LocalStorage_defs)
  have call: "adapter example_env
        (request_interceptor LocalStorageTokenManager (Number_toString example_env) (store ?st) ?c)
        (world ?st) = (Resolved ?r, 1)
      \<and> data ?r = Failure None 1001 ''Insufficient funds''"
    unfolding sent by (simp add: example_defs)
  have body: "data ?r = Failure None 1001 ''Insufficient funds''" by simp
  note thrown = failure_body_is_thrown
    [of ?r None 1001 "''Insufficient funds''" example_env LocalStorageTokenManager ?st ?c 1]
  from thrown body have "response_onFulfilled ?r
     = (Inl (ApiError ''Insufficient funds''
          (Some \<lparr>status = 400, data = Some \<lparr>errorMessage = Some ''Insufficient funds''\<rparr>\<rparr>))
        :: nat thrown + string Response)"
    by blast
  moreover from thrown call have "requestInstance example_env LocalStorageTokenManager ?c ?st
     = (Inl (ApiError ''Insufficient funds''
          (Some \<lparr>status = 400, data = Some \<lparr>errorMessage = Some ''Insufficient funds''\<rparr>\<rparr>)),
        ?st\<lparr>world := 1,
           trace := trace ?st @
             [Transport (request_interceptor LocalStorageTokenManager
                (Number_toString example_env) (store ?st) ?c)]\<rparr>)"
    by blast
  ultimately show ?thesis
    unfolding sent by (simp add: example_state_def)
qed

text \<open>
  Claim C8, amended.  For a failure that is not a 401, or a 401 on a call marked as
  retried: \<^verbatim>\<open>showError\<close> is called, once, exactly when \<^verbatim>\<open>silentError\<close> is unset; the error
  is thrown when \<^verbatim>\<open>throwError\<close> is set, and otherwise the caller receives a failure value.
  The message shown and returned is the body's message when it is present and not empty,
  and the transport's message otherwise; the code returned is the status when there is a
  response and the status is not zero, and 500 otherwise.
\<close>

theorem terminal_failure_handled_by_flags:
  assumes "map_option status response \<noteq> Some 401 \<or> retry config"
  shows "response_onRejected inst E tm message response config st
       = (if throwError config then Inl (AxiosError message response config)
          else Inr (Failure None (status_or_500 response) (best_message message response)),
          if silentError config then st
          else st\<lparr>trace := trace st @ [ShowError (best_message message response)]\<rparr>)
     \<and> (body_errorMessage response = Some m \<and> m \<noteq> [] \<longrightarrow> best_message message response = m)
     \<and> (body_errorMessage response = None \<or> body_errorMessage response = Some []
          \<longrightarrow> best_message message response = message)
     \<and> (response = Some r \<and> status r \<noteq> 0 \<longrightarrow> status_or_500 response = status r)
     \<and> (response = None \<or> map_option status response = Some 0
          \<longrightarrow> status_or_500 response = 500)"
  using assms
  by (auto simp: response_onRejected_retried handle_by_configuration_def best_message_def
      status_or_500_def Let_def)

text \<open>
  The claim as the specification states it fails on a body whose message is present and
  empty, where the transport's message is shown, and on a response with status zero,
  where the code returned is 500.
\<close>

theorem terminal_failure_handled_by_flags_counterexample:
  "body_errorMessage (not_found (Some '''')) = Some ''''
 \<and> \<not> silentError (example_config ''/users'' None)
 \<and> trace (snd (response_onRejected (requestInstance example_env LocalStorageTokenManager)
          example_env LocalStorageTokenManager ''Request failed with status code 404''
          (not_found (Some '''')) (example_config ''/users'' None)
          (example_state None None)))
     = [ShowError ''Request failed with status code 404'']
 \<and> \<not> throwError (example_config ''/users'' None)
 \<and> fst (response_onRejected (requestInstance example_env LocalStorageTokenManager)
          example_env LocalStorageTokenManager ''Request failed''
          (Some \<lparr>status = 0, data = None\<rparr>) (example_config ''/users'' None)
          (example_state None None))
     = Inr (Failure None 500 ''Request failed'')"
  by (simp add: response_onRejected_def handle_by_configuration_def best_message_def
      body_errorMessage_def status_or_500_def not_found_def example_defs Let_def)

theorem terminal_failure_handled_by_flags_witness:
  "response_onRejected (requestInstance example_env LocalStorageTokenManager)
          example_env LocalStorageTokenManager ''Request failed with status code 404''
          (not_found (Some ''Not found''))
          ((example_config ''/users'' None)\<lparr>silentError := True\<rparr>)
          (example_state None None)
     = (Inr (Failure None 404 ''Not found''), example_state None None)
 \<and> response_onRejected (requestInstance example_env LocalStorageTokenManager)
          example_env LocalStorageTokenManager ''timeout of 10000ms exceeded''
          None
          ((example_config ''/users'' None)\<lparr>throwError := True\<rparr>)
          (example_state None None)
     = (Inl (AxiosError ''timeout of 10000ms exceeded'' None
               ((example_config ''/users'' None)\<lparr>throwError := True\<rparr>)),
        (example_state None None)\<lparr>trace := [ShowError ''timeout of 10000ms exceeded'']\<rparr>)
 \<and> response_onRejected (requestInstance example_env LocalStorageTokenManager)
          example_env LocalStorageTokenManager ''Request failed with status code 401''
          unauthorized
          ((example_config ''/orders'' None)\<lparr>retry := True\<rparr>)
          (example_state (Some ''A1'') (Some ''R1''))
     = (Inr (Failure None 401 ''Request failed with status code 401''),
        (example_state (Some ''A1'') (Some ''R1''))
          \<lparr>trace := [ShowError ''Request failed with status code 401'']\<rparr>)"
proof -
  let ?inst = "requestInstance example_env LocalStorageTokenManager"
  let ?c1 = "(example_config ''/users'' None)\<lparr>silentError := True\<rparr>"
  let ?c2 = "(example_config ''/users'' None)\<lparr>throwError := True\<rparr>"
  let ?c3 = "(example_config ''/orders'' None)\<lparr>retry := True\<rparr>"
  have h1: "map_option status (not_found (Some ''Not found'')) \<noteq> Some 401 \<or> retry ?c1"
    by (simp add: not_found_def)
  have h2: "map_option status None \<noteq> Some (401 :: int) \<or> retry ?c2"
    by simp
  have h3: "map_option status unauthorized \<noteq> Some 401 \<or> retry ?c3"
    by simp
  have m1: "body_errorMessage (not_found (Some ''Not found'')) = Some ''Not found'' \<and> ''Not found'' \<noteq> []"
    by (simp add: body_errorMessage_def not_found_def)
  have s1: "not_found (Some ''Not found'') = Some \<lparr>status = 404, data = Some \<lparr>errorMessage = Some ''Not found''\<rparr>\<rparr>
      \<and> status \<lparr>status = 404, data = Some \<lparr>errorMessage = Some ''Not found''\<rparr>\<rparr> \<noteq> 0"
    by (simp add: not_found_def)
  have m2: "body_errorMessage None = None \<or> body_errorMessage None = Some []"
    by (simp add: body_errorMessage_def)
  have m3: "body_errorMessage unauthorized = None \<or> body_errorMessage unauthorized = Some []"
    by (simp add: body_errorMessage_def unauthorized_def)
  have s3: "unauthorized = Some \<lparr>status = 401, data = None\<rparr>
      \<and> status \<lparr>status = 401, data = None :: ErrorData option\<rparr> \<noteq> 0"
    by (simp add: unauthorized_def)
  note t1 = terminal_failure_handled_by_flags
    [OF h1, of ?inst example_env LocalStorageTokenManager "''Request failed with status code 404''"
       "example_state None None" "''Not found''"
       "\<lparr>status = 404, data = Some \<lparr>errorMessage = Some ''Not found''\<rparr>\<rparr>"]
  note t2 = terminal_failure_handled_by_flags
    [OF h2, of ?inst example_env LocalStorageTokenManager "''timeout of 10000ms exceeded''"
       "example_state None None"]
  note t3 = terminal_failure_handled_by_flags
    [OF h3, of ?inst example_env LocalStorageTokenManager "''Request failed with status code 401''"
       "example_state (Some ''A1'') (Some ''R1'')" _ "\<lparr>status = 401, data = None\<rparr>"]
  have b1: "best_message ''Request failed with status code 404'' (not_found (Some ''Not found'')) = ''Not found''"
    using t1 m1 by blast
  have c1: "status_or_500 (not_found (Some ''Not found'')) = 404"
    using t1 s1 by simp
  have b2: "best_message ''timeout of 10000ms exceeded'' None = ''timeout of 10000ms exceeded''"
    using t2 m2 by blast
  have b3: "best_message ''Request failed with status code 401'' unauthorized
      = ''Request failed with status code 401''"
    using t3 m3 by blast
  have c3: "status_or_500 unauthorized = 401"
    using t3 s3 by simp
  have c2: "status_or_500 None = 500"
    using t2 by blast
  show ?thesis
    using t1 [THEN conjunct1] t2 [THEN conjunct1] t3 [THEN conjunct1]
    unfolding b1 c1 b2 b3 c3 c2
    by (simp add: example_defs)
qed

text \<open>
  Claim C9.  Before \<^verbatim>\<open>createRequest\<close> has been called, a request rejects with the error of
  an instance that is not initialized and leaves the state as it was: the transport is not
  called.
\<close>

theorem request_before_createRequest:
  "request None E args st
     = (Inl (Error ''Request instance not initialized. Call createRequest first.''), st)
 \<and> transport_calls (trace (snd (request None E args st))) = transport_calls (trace st)"
  by (simp add: request_def)

lemma request_after_createRequest:
  "request (createRequest options) E args st
     = requestInstance E
         (case options_tokenManager options of None \<Rightarrow> LocalStorageTokenManager | Some t \<Rightarrow> t)
         args st"
  by (simp add: request_def createRequest_def)

end
